theory Spec2Isabelle
  imports Complex_Main "HOL-Library.AList" "HOL-Library.Char_ord" "HOL-Library.List_Lexorder"
begin

section \<open>SwarmSpawner: a shallow embedding of dockerspawner/swarmspawner.py\<close>

text \<open>
  Python strings are byte strings in UTF-8 (\<open>string\<close>), dicts are association lists in
  insertion order with distinct keys (\<open>AList.update\<close> is \<open>d[k] = v\<close>), exceptions are
  values of \<open>error\<close>, and a method that mutates the spawner returns the new spawner
  next to its result: an exception leaves the mutations done before it in place.
\<close>

subsection \<open>Values, errors and engine records\<close>

datatype error =
    APIError int         \<comment> \<open>docker.errors.APIError, with \<open>e.response.status_code\<close>\<close>
  | RuntimeError string
  | KeyError string
  | IndexError
  | ValueError           \<comment> \<open>\<open>int(x)\<close> of a float that is not a number\<close>
  | OverflowError        \<comment> \<open>\<open>int(x)\<close> of an infinite float\<close>
  | TraitError           \<comment> \<open>a traitlets \<open>Unicode\<close> field assigned a value that is not a str\<close>

record driver_config =
  dc_name :: string
  dc_options :: "(string \<times> string) list option"

record mount =
  target :: string
  source :: string
  mount_type :: string
  read_only :: bool
  mount_driver :: driver_config

datatype pyval =
    PNone
  | PInt int
  | PStr string
  | PList "pyval list"
  | PDict "(string \<times> pyval) list"
  | PMounts "mount list"

text \<open>
  A Python float: a double with its value as a real number (both zeros are \<open>Finite 0\<close>),
  not-a-number, or an infinity.
\<close>

datatype pyfloat = Finite real | NaN | PosInf | NegInf

text \<open>
  A value of the \<open>volumes\<close> maps: a bare path, or a dict read at the keys \<open>bind\<close> and
  \<open>mode\<close>.
\<close>

datatype vol = VStr string | VDict "(string \<times> string) list"

text \<open>
  What \<open>inspect_service\<close> returns, read by the spawner at \<open>['ID']\<close> and at
  \<open>['Config']['Env']\<close>. In \<open>svc_Config\<close>, \<open>None\<close> is a response without the key
  \<open>Config\<close>, \<open>Some None\<close> one whose \<open>Config\<close> has no key \<open>Env\<close>.
\<close>

record service =
  svc_ID :: string
  svc_Config :: "string list option option"

record task =
  task_ID :: string
  task_Status_State :: string

record task_template =
  tt_container_spec :: "(string \<times> pyval) list"
  tt_resources :: "(string \<times> pyval) list"
  tt_force_update :: int
  tt_kwargs :: "(string \<times> pyval) list"

text \<open>The calls made through \<open>self.docker(method, ...)\<close>, in the order they are issued.\<close>

datatype call =
    Inspect_service string
  | Remove_service string
  | Tasks string
  | Create_service task_template "(string \<times> pyval) list" pyval

subsection \<open>The spawner and what lies outside the file\<close>

record spawner =
  user_name :: string                     \<comment> \<open>\<open>self.user.name\<close>\<close>
  server_name :: string                   \<comment> \<open>\<open>getattr(self, 'name', '')\<close>\<close>
  service_id :: string
  api_token :: string
  image :: string
  service_prefix :: string
  service_name_template :: string
  escaped_name_cache :: "string option"   \<comment> \<open>\<open>self._escaped_name\<close>\<close>
  volumes :: "(string \<times> vol) list"
  read_only_volumes :: "(string \<times> vol) list"
  format_volume_name :: "string \<Rightarrow> string"  \<comment> \<open>the configured callable, applied to this spawner\<close>
  volume_driver :: string
  volume_driver_options :: "(string \<times> string) list"
  remove_services :: bool
  user_set_cmd :: bool
  cmd :: "string list"
  mem_limit :: pyval
  mem_guarantee :: pyval
  cpu_limit :: "pyfloat option"
  cpu_guarantee :: "pyfloat option"
  network_name :: string
  extra_create_kwargs :: "(string \<times> pyval) list"
  port :: int
  calls :: "call list"

text \<open>
  The collaborators: the engine behind \<open>self.docker\<close> (one response per method and
  argument; no operation below calls a method twice), the inherited \<open>Spawner\<close> methods,
  Python's \<open>str.format\<close>, the multiplication of two floats (IEEE 754, with its
  rounding), and the code that escapism writes after the escape character.
\<close>

record host =
  inspect_service :: "string \<Rightarrow> error + service"
  remove_service :: "string \<Rightarrow> error + unit"
  tasks :: "string \<Rightarrow> error + task list"
  create_service :: "task_template \<Rightarrow> (string \<times> pyval) list \<Rightarrow> pyval \<Rightarrow> error + string"
  str_format :: "string \<Rightarrow> (string \<times> string) list \<Rightarrow> error + string"
  float_mul :: "pyfloat \<Rightarrow> pyfloat \<Rightarrow> pyfloat"
  byte_code :: "char \<Rightarrow> string"
  base_clear_state :: "spawner \<Rightarrow> spawner"
  base_get_state :: "spawner \<Rightarrow> (string \<times> pyval) list"
  base_load_state :: "(string \<times> pyval) list \<Rightarrow> spawner \<Rightarrow> spawner"
  get_env :: "spawner \<Rightarrow> pyval"
  get_args :: "spawner \<Rightarrow> string list"

definition docker :: "call \<Rightarrow> spawner \<Rightarrow> spawner" where
  "docker c s = s\<lparr>calls := calls s @ [c]\<rparr>"

subsection \<open>Identity: escaped\_name and service\_name\<close>

definition ascii_letters :: string where
  "ascii_letters = ''abcdefghijklmnopqrstuvwxyzABCDEFGHIJKLMNOPQRSTUVWXYZ''"

definition digits :: string where
  "digits = ''0123456789''"

definition service_safe_chars :: string where
  "service_safe_chars = ascii_letters @ digits @ ''-''"

definition service_escape_char :: char where
  "service_escape_char = CHR ''_''"

text \<open>
  Modelled from the spec: \<open>escape\<close> is imported from escapism and is not under src/. The
  spec has it map every byte outside the safe alphabet to a fixed escape sequence seeded by
  the escape character; the bytes of the safe alphabet stay. What follows the escape
  character is the parameter \<open>code\<close>.
\<close>

fun escape :: "(char \<Rightarrow> string) \<Rightarrow> string \<Rightarrow> char \<Rightarrow> string \<Rightarrow> string" where
  "escape code safe esc [] = []"
| "escape code safe esc (c # cs) =
     (if c \<in> set safe then [c] else esc # code c) @ escape code safe esc cs"

definition escaped_name :: "host \<Rightarrow> spawner \<Rightarrow> string \<times> spawner" where
  "escaped_name h s =
     (case escaped_name_cache s of
        None \<Rightarrow>
          (let e = escape (byte_code h) service_safe_chars service_escape_char (user_name s)
           in (e, s\<lparr>escaped_name_cache := Some e\<rparr>))
      | Some e \<Rightarrow> (e, s))"

definition replace_char :: "char \<Rightarrow> char \<Rightarrow> string \<Rightarrow> string" where
  "replace_char a b xs = map (\<lambda>c. if c = a then b else c) xs"

definition service_name :: "host \<Rightarrow> spawner \<Rightarrow> (error + string) \<times> spawner" where
  "service_name h s =
     (let escaped_service_image = replace_char (CHR ''/'') (CHR ''_'') (image s);
          (en, s1) = escaped_name h s;
          d = [(''username'', en), (''imagename'', escaped_service_image),
               (''servername'', server_name s), (''prefix'', service_prefix s)]
      in (str_format h (service_name_template s) d, s1))"

subsection \<open>Persisted state\<close>

definition load_state :: "host \<Rightarrow> (string \<times> pyval) list \<Rightarrow> spawner \<Rightarrow> (error + unit) \<times> spawner" where
  "load_state h state s =
     (let s1 = base_load_state h state s
      in case map_of state ''service_id'' of
           None \<Rightarrow> (Inr (), s1\<lparr>service_id := ''''\<rparr>)
         | Some (PStr v) \<Rightarrow> (Inr (), s1\<lparr>service_id := v\<rparr>)
         | Some _ \<Rightarrow> (Inl TraitError, s1))"

definition get_state :: "host \<Rightarrow> spawner \<Rightarrow> (string \<times> pyval) list" where
  "get_state h s =
     (let state = base_get_state h s
      in if service_id s \<noteq> '''' then AList.update ''service_id'' (PStr (service_id s)) state
         else state)"

subsection \<open>Discovery\<close>

text \<open>
  \<open>self.service_name\<close> is read again for each log line and call; after the first read the
  cache is set and every later read returns the same name, so it is read once here.
\<close>

definition get_service :: "host \<Rightarrow> spawner \<Rightarrow> (error + service option) \<times> spawner" where
  "get_service h s =
     (case service_name h s of
        (Inl e, s1) \<Rightarrow> (Inl e, s1)
      | (Inr n, s1) \<Rightarrow>
          (let s2 = docker (Inspect_service n) s1
           in case inspect_service h n of
                Inr svc \<Rightarrow> (Inr (Some svc), s2\<lparr>service_id := svc_ID svc\<rparr>)
              | Inl (APIError code) \<Rightarrow>
                  if code = 404 then (Inr None, s2\<lparr>service_id := ''''\<rparr>)
                  else if code = 500 then (Inr None, s2\<lparr>service_id := ''''\<rparr>)
                  else (Inl (APIError code), s2)
              | Inl e \<Rightarrow> (Inl e, s2)))"

text \<open>
  Calling a \<open>gen.coroutine\<close> without \<open>yield\<close> gives a Future, whatever the body will
  return or raise. The body runs to its engine call at once, so that call is queued on the
  single worker before the caller's next one; what the body then does to the spawner is
  in place when the caller resumes, and its exception, if any, stays in the Future.
\<close>

datatype 'a future = Future 'a

definition gen_coroutine ::
  "(spawner \<Rightarrow> 'a \<times> spawner) \<Rightarrow> spawner \<Rightarrow> 'a future option \<times> spawner" where
  "gen_coroutine body s = (Some (Future (fst (body s))), snd (body s))"

definition get_task :: "host \<Rightarrow> spawner \<Rightarrow> (error + task option) \<times> spawner" where
  "get_task h s =
     (case service_name h s of
        (Inl e, s1) \<Rightarrow> (Inl e, s1)
      | (Inr n, s1) \<Rightarrow>
          (let (fut, s2) = gen_coroutine (get_service h) s1
           in if fut = None then (Inr None, s2)
              else
                (let s3 = docker (Tasks n) s2
                 in case tasks h n of
                      Inr ts \<Rightarrow>
                        if length ts = 0 then (Inr None, s3)
                        else if length ts > 1 then
                          (Inl (RuntimeError
                             (''Found more than one running notebook task for service ''
                                @ CHR 0x27 # n @ [CHR 0x27])), s3)
                        else (Inr (Some (ts ! 0)), s3)
                    | Inl (APIError code) \<Rightarrow>
                        if code = 404 then (Inr None, s3) else (Inl (APIError code), s3)
                    | Inl e \<Rightarrow> (Inl e, s3))))"

subsection \<open>Stop\<close>

definition stop :: "host \<Rightarrow> spawner \<Rightarrow> (error + unit) \<times> spawner" where
  "stop h s =
     (case service_name h s of
        (Inl e, s1) \<Rightarrow> (Inl e, s1)
      | (Inr n, s1) \<Rightarrow>
          (let s2 = docker (Remove_service (service_id s1)) s1
           in case remove_service h (service_id s1) of
                Inl e \<Rightarrow> (Inl e, s2)
              | Inr u \<Rightarrow> (Inr (), base_clear_state h s2)))"

subsection \<open>Volumes and mounts\<close>

record volbind =
  vb_bind :: string
  vb_mode :: string

fun volumes_to_binds ::
  "(string \<Rightarrow> string) \<Rightarrow> (string \<times> vol) list \<Rightarrow> (string \<times> volbind) list \<Rightarrow> string
     \<Rightarrow> error + (string \<times> volbind) list" where
  "volumes_to_binds fmt [] binds mode = Inr binds"
| "volumes_to_binds fmt ((k, v) # vs) binds mode =
     (case v of
        VStr p \<Rightarrow>
          volumes_to_binds fmt vs
            (AList.update (fmt k) \<lparr>vb_bind = fmt p, vb_mode = mode\<rparr> binds) mode
      | VDict dv \<Rightarrow>
          (let m = (case map_of dv ''mode'' of Some m' \<Rightarrow> m' | None \<Rightarrow> mode)
           in case map_of dv ''bind'' of
                None \<Rightarrow> Inl (KeyError ''bind'')
              | Some b \<Rightarrow>
                  volumes_to_binds fmt vs
                    (AList.update (fmt k) \<lparr>vb_bind = fmt b, vb_mode = m\<rparr> binds) mode))"

definition volume_binds :: "spawner \<Rightarrow> error + (string \<times> volbind) list" where
  "volume_binds s =
     (case volumes_to_binds (format_volume_name s) (volumes s) [] ''rw'' of
        Inl e \<Rightarrow> Inl e
      | Inr binds \<Rightarrow> volumes_to_binds (format_volume_name s) (read_only_volumes s) binds ''ro'')"

definition volume_mount_points :: "spawner \<Rightarrow> error + string list" where
  "volume_mount_points s =
     (case volume_binds s of
        Inl e \<Rightarrow> Inl e
      | Inr binds \<Rightarrow> Inr (sort (map (\<lambda>(host_loc, value). vb_bind value) binds)))"

definition mount_driver_config :: "spawner \<Rightarrow> driver_config" where
  "mount_driver_config s =
     \<lparr>dc_name = volume_driver s,
      dc_options = (if volume_driver_options s = [] then None
                    else Some (volume_driver_options s))\<rparr>"

definition mounts :: "spawner \<Rightarrow> error + mount list" where
  "mounts s =
     (case volume_binds s of
        Inl e \<Rightarrow> Inl e
      | Inr binds \<Rightarrow>
          if length binds \<noteq> 0 then
            (let driver = mount_driver_config s
             in Inr (map (\<lambda>(host_loc, vol).
                       \<lparr>target = vb_bind vol, source = host_loc, mount_type = ''bind'',
                        read_only = (vb_mode vol = ''ro''), mount_driver = driver\<rparr>) binds))
          else Inr [])"

text \<open>The elements of a list in the order of their first occurrence.\<close>

definition first_occurrences :: "'a list \<Rightarrow> 'a list" where
  "first_occurrences xs = rev (remdups (rev xs))"

subsection \<open>Building the service specification\<close>

definition container_spec_keys :: "string list" where
  "container_spec_keys =
     [''image'', ''command'', ''args'', ''hostname'', ''env'', ''workdir'', ''user'',
      ''labels'', ''mounts'', ''stop_grace_period'', ''secrets'', ''tty'', ''groups'',
      ''open_stdin'', ''read_only'', ''stop_signal'', ''healthcheck'', ''hosts'',
      ''dns_config'', ''configs'', ''privileges'']"

definition resource_spec_keys :: "string list" where
  "resource_spec_keys = [''cpu_limit'', ''mem_limit'', ''cpu_reservation'', ''mem_reservation'']"

definition task_spec_keys :: "string list" where
  "task_spec_keys = [''networks'']"

definition endpoint_spec_keys :: "string list" where
  "endpoint_spec_keys = [''ports'']"

text \<open>\<open>{k: v for k, v in d.items() if k in keys}\<close>\<close>

definition dict_filter :: "string list \<Rightarrow> (string \<times> 'v) list \<Rightarrow> (string \<times> 'v) list" where
  "dict_filter keys d = filter (\<lambda>(k, v). k \<in> set keys) d"

definition dict_update :: "('k \<times> 'v) list \<Rightarrow> ('k \<times> 'v) list \<Rightarrow> ('k \<times> 'v) list" where
  "dict_update d other = fold (\<lambda>(k, v). AList.update k v) other d"

definition remaining_keys :: "(string \<times> 'v) list \<Rightarrow> string set" where
  "remaining_keys d =
     set (map fst d) -
       (set container_spec_keys \<union> set resource_spec_keys \<union> set task_spec_keys
          \<union> set endpoint_spec_keys \<union> {''name''})"

definition trunc_toward_zero :: "real \<Rightarrow> int" where
  "trunc_toward_zero x = (if 0 \<le> x then \<lfloor>x\<rfloor> else \<lceil>x\<rceil>)"

text \<open>
  \<open>int(x)\<close> of a float: the value of the double truncated toward zero; \<open>ValueError\<close> for
  not-a-number and \<open>OverflowError\<close> for an infinity.
\<close>

definition py_int :: "pyfloat \<Rightarrow> error + int" where
  "py_int x =
     (case x of
        Finite r \<Rightarrow> Inr (trunc_toward_zero r)
      | NaN \<Rightarrow> Inl ValueError
      | PosInf \<Rightarrow> Inl OverflowError
      | NegInf \<Rightarrow> Inl OverflowError)"

text \<open>
  \<open>int(c * 1e9) if c else None\<close>. A float is false when it is zero; not-a-number and the
  infinities are true.
\<close>

definition nano_cpus :: "host \<Rightarrow> pyfloat option \<Rightarrow> error + pyval" where
  "nano_cpus h c =
     (case c of
        None \<Rightarrow> Inr PNone
      | Some x \<Rightarrow>
          if x \<noteq> Finite 0 then
            (case py_int (float_mul h x (Finite (10 ^ 9))) of
               Inl e \<Rightarrow> Inl e
             | Inr i \<Rightarrow> Inr (PInt i))
          else Inr PNone)"

definition build_create_kwargs ::
  "host \<Rightarrow> spawner \<Rightarrow> string \<Rightarrow> string \<Rightarrow> mount list \<Rightarrow> (string \<times> pyval) list option
     \<Rightarrow> error + (string \<times> pyval) list" where
  "build_create_kwargs h s n img ms extra =
     (case nano_cpus h (cpu_limit s) of
        Inl e \<Rightarrow> Inl e
      | Inr cl \<Rightarrow>
          (case nano_cpus h (cpu_guarantee s) of
             Inl e \<Rightarrow> Inl e
           | Inr cr \<Rightarrow>
               (let cmd' = (if user_set_cmd s then cmd s else []);
                    kw0 = [(''image'', PStr img),
                           (''env'', get_env h s),
                           (''mounts'', PMounts ms),
                           (''name'', PStr n),
                           (''args'', PList (map PStr (get_args h s))),
                           (''mem_limit'', mem_limit s),
                           (''mem_reservation'', mem_guarantee s),
                           (''cpu_limit'', cl),
                           (''cpu_reservation'', cr),
                           (''networks'',
                              PList (if network_name s \<noteq> [] then [PStr (network_name s)]
                                     else []))];
                    kw1 = (if cmd' \<noteq> [] then
                             AList.update ''command'' (PList (map PStr cmd')) kw0
                           else kw0);
                    kw2 = dict_update kw1 (extra_create_kwargs s)
                in case extra of
                     None \<Rightarrow> Inr kw2
                   | Some x \<Rightarrow> if x \<noteq> [] then Inr (dict_update kw2 x) else Inr kw2)))"

subsection \<open>Start\<close>

definition startswith :: "string \<Rightarrow> string \<Rightarrow> bool" where
  "startswith line p = (take (length p) line = p)"

text \<open>\<open>s.split(sep, 1)\<close> for a separator of one character\<close>

definition split_once :: "char \<Rightarrow> string \<Rightarrow> string list" where
  "split_once sep s =
     (if sep \<in> set s
      then [takeWhile (\<lambda>c. c \<noteq> sep) s, tl (dropWhile (\<lambda>c. c \<noteq> sep) s)]
      else [s])"

definition is_token_line :: "string \<Rightarrow> bool" where
  "is_token_line line =
     (startswith line ''JPY_API_TOKEN='' \<or> startswith line ''JUPYTERHUB_API_TOKEN='')"

fun reuse_api_token :: "string list \<Rightarrow> spawner \<Rightarrow> (error + unit) \<times> spawner" where
  "reuse_api_token [] s = (Inr (), s)"
| "reuse_api_token (line # ls) s =
     (if is_token_line line then
        (let parts = split_once (CHR ''='') line
         in if 1 < length parts then (Inr (), s\<lparr>api_token := parts ! 1\<rparr>)
            else (Inl IndexError, s))
      else reuse_api_token ls s)"

text \<open>
  The create branch of \<open>start\<close>. The unused keys (\<open>remaining_keys\<close>) are written to
  the log and nothing else is done with them.
\<close>

definition create_path ::
  "host \<Rightarrow> string \<Rightarrow> string option \<Rightarrow> (string \<times> pyval) list option \<Rightarrow> spawner
     \<Rightarrow> (error + unit) \<times> spawner" where
  "create_path h n image_arg extra s =
     (let img = (case image_arg of
                   None \<Rightarrow> image s
                 | Some i \<Rightarrow> if i \<noteq> [] then i else image s)
      in case mounts s of
           Inl e \<Rightarrow> (Inl e, s)
         | Inr ms \<Rightarrow>
             (case build_create_kwargs h s n img ms extra of
                Inl e \<Rightarrow> (Inl e, s)
              | Inr create_kwargs \<Rightarrow>
                  (let container_spec = dict_filter container_spec_keys create_kwargs;
                       resource_spec = dict_filter resource_spec_keys create_kwargs;
                       task_spec = \<lparr>tt_container_spec = container_spec,
                                    tt_resources = resource_spec,
                                    tt_force_update = 1,
                                    tt_kwargs = dict_filter task_spec_keys create_kwargs\<rparr>;
                       endpoint_spec = dict_filter endpoint_spec_keys create_kwargs
                   in case map_of create_kwargs ''name'' of
                        None \<Rightarrow> (Inl (KeyError ''name''), s)
                      | Some nm \<Rightarrow>
                          (let s1 = docker (Create_service task_spec endpoint_spec nm) s
                           in case create_service h task_spec endpoint_spec nm of
                                Inl e \<Rightarrow> (Inl e, s1)
                              | Inr new_id \<Rightarrow> (Inr (), s1\<lparr>service_id := new_id\<rparr>)))))"

definition start ::
  "host \<Rightarrow> string option \<Rightarrow> (string \<times> pyval) list option \<Rightarrow> spawner
     \<Rightarrow> (error + string \<times> int) \<times> spawner" where
  "start h image_arg extra s =
     (case get_service h s of
        (Inl e, s1) \<Rightarrow> (Inl e, s1)
      | (Inr found, s1) \<Rightarrow>
          (case service_name h s1 of
             (Inl e, s2) \<Rightarrow> (Inl e, s2)
           | (Inr n, s2) \<Rightarrow>
               (let (r3, s3) =
                      (if found \<noteq> None \<and> remove_services s2 then
                         (let s' = docker (Remove_service (service_id s2)) s2
                          in case remove_service h (service_id s2) of
                               Inl e \<Rightarrow> (Inl e, s')
                             | Inr u \<Rightarrow> (Inr None, s'))
                       else (Inr found, s2))
                in case r3 of
                     Inl e \<Rightarrow> (Inl e, s3)
                   | Inr service \<Rightarrow>
                       (let (r4, s4) =
                              (case service of
                                 None \<Rightarrow> create_path h n image_arg extra s3
                               | Some svc \<Rightarrow>
                                   (case svc_Config svc of
                                      None \<Rightarrow> (Inl (KeyError ''Config''), s3)
                                    | Some None \<Rightarrow> (Inl (KeyError ''Env''), s3)
                                    | Some (Some env) \<Rightarrow> reuse_api_token env s3))
                        in case r4 of
                             Inl e \<Rightarrow> (Inl e, s4)
                           | Inr u \<Rightarrow> (Inr (n, port s4), s4)))))"

subsection \<open>A mocked engine and a spawner with the default configuration\<close>

definition hex_digit :: "nat \<Rightarrow> char" where
  "hex_digit d = ''0123456789ABCDEF'' ! d"

text \<open>One byte code: the two uppercase hexadecimal digits of the byte.\<close>

definition hex2 :: "char \<Rightarrow> string" where
  "hex2 c = [hex_digit (of_char c div 16), hex_digit (of_char c mod 16)]"

text \<open>
  A stand-in for \<open>str.format\<close> that knows the default template \<open>{prefix}-{username}\<close>
  only.
\<close>

definition format_default :: "string \<Rightarrow> (string \<times> string) list \<Rightarrow> error + string" where
  "format_default template d =
     (if template = ''{prefix}-{username}'' then
        (case (map_of d ''prefix'', map_of d ''username'') of
           (Some p, Some u) \<Rightarrow> Inr (p @ ''-'' @ u)
         | _ \<Rightarrow> Inl (KeyError ''prefix''))
      else Inl (KeyError template))"

text \<open>
  A stand-in for the multiplication of floats: the exact product of two finite values,
  which is what IEEE multiplication gives whenever that product is a double (as
  \<open>1.5 * 1e9\<close> is); the special values follow IEEE 754.
\<close>

fun exact_mul :: "pyfloat \<Rightarrow> pyfloat \<Rightarrow> pyfloat" where
  "exact_mul (Finite a) (Finite b) = Finite (a * b)"
| "exact_mul NaN y = NaN"
| "exact_mul x NaN = NaN"
| "exact_mul (Finite a) PosInf = (if a = 0 then NaN else if 0 < a then PosInf else NegInf)"
| "exact_mul (Finite a) NegInf = (if a = 0 then NaN else if 0 < a then NegInf else PosInf)"
| "exact_mul PosInf (Finite b) = (if b = 0 then NaN else if 0 < b then PosInf else NegInf)"
| "exact_mul NegInf (Finite b) = (if b = 0 then NaN else if 0 < b then NegInf else PosInf)"
| "exact_mul PosInf PosInf = PosInf"
| "exact_mul PosInf NegInf = NegInf"
| "exact_mul NegInf PosInf = NegInf"
| "exact_mul NegInf NegInf = PosInf"

definition mock_host :: host where
  "mock_host =
     \<lparr>inspect_service = (\<lambda>n. Inl (APIError 404)),
      remove_service = (\<lambda>i. Inr ()),
      tasks = (\<lambda>n. Inr []),
      create_service = (\<lambda>tt ep nm. Inr ''svc1''),
      str_format = format_default,
      float_mul = exact_mul,
      byte_code = hex2,
      base_clear_state = (\<lambda>s. s\<lparr>api_token := []\<rparr>),
      base_get_state = (\<lambda>s. []),
      base_load_state = (\<lambda>state s. s),
      get_env = (\<lambda>s. PDict [(''JUPYTERHUB_API_TOKEN'', PStr (api_token s))]),
      get_args = (\<lambda>s. [])\<rparr>"

definition default_spawner :: spawner where
  "default_spawner =
     \<lparr>user_name = ''alice'',
      server_name = [],
      service_id = [],
      api_token = ''tok0'',
      image = ''jupyterhub/singleuser:0.9'',
      service_prefix = ''jupyter'',
      service_name_template = ''{prefix}-{username}'',
      escaped_name_cache = None,
      volumes = [],
      read_only_volumes = [],
      format_volume_name = (\<lambda>t. t),
      volume_driver = [],
      volume_driver_options = [],
      remove_services = False,
      user_set_cmd = False,
      cmd = [],
      mem_limit = PNone,
      mem_guarantee = PNone,
      cpu_limit = None,
      cpu_guarantee = None,
      network_name = ''bridge'',
      extra_create_kwargs = [],
      port = 8888,
      calls = []\<rparr>"

definition spawner_abc :: spawner where
  "spawner_abc = default_spawner\<lparr>service_id := ''abc''\<rparr>"

definition host_inspect_503 :: host where
  "host_inspect_503 = mock_host\<lparr>inspect_service := (\<lambda>n. Inl (APIError 503))\<rparr>"

definition task1 :: task where
  "task1 = \<lparr>task_ID = ''t1'', task_Status_State = ''running''\<rparr>"

definition task2 :: task where
  "task2 = \<lparr>task_ID = ''t2'', task_Status_State = ''running''\<rparr>"

definition host_one_task :: host where
  "host_one_task = mock_host\<lparr>tasks := (\<lambda>n. Inr [task1])\<rparr>"

definition host_two_tasks :: host where
  "host_two_tasks = mock_host\<lparr>tasks := (\<lambda>n. Inr [task1, task2])\<rparr>"

definition service_abc :: service where
  "service_abc =
     \<lparr>svc_ID = ''abc'',
      svc_Config = Some (Some [''PATH=/usr/bin'', ''JUPYTERHUB_API_TOKEN=abc123'',
                               ''JPY_API_TOKEN=old=1''])\<rparr>"

definition host_existing :: host where
  "host_existing = mock_host\<lparr>inspect_service := (\<lambda>n. Inr service_abc)\<rparr>"

text \<open>An existing service whose inspect response has no key \<open>Config\<close>.\<close>

definition service_no_config :: service where
  "service_no_config = \<lparr>svc_ID = ''abc'', svc_Config = None\<rparr>"

definition host_no_config :: host where
  "host_no_config = mock_host\<lparr>inspect_service := (\<lambda>n. Inr service_no_config)\<rparr>"

text \<open>An existing service whose environment has no token line.\<close>

definition service_no_token :: service where
  "service_no_token = \<lparr>svc_ID = ''abc'', svc_Config = Some (Some [''PATH=/usr/bin''])\<rparr>"

definition host_no_token :: host where
  "host_no_token = mock_host\<lparr>inspect_service := (\<lambda>n. Inr service_no_token)\<rparr>"

text \<open>
  An engine whose remove call answers 404, under a \<open>clear_state\<close> that would empty both
  the service id and the token.
\<close>

definition host_remove_404 :: host where
  "host_remove_404 =
     mock_host\<lparr>remove_service := (\<lambda>i. Inl (APIError 404)),
               base_clear_state := (\<lambda>s. s\<lparr>service_id := [], api_token := []\<rparr>)\<rparr>"


definition spawner_dash :: spawner where
  "spawner_dash = default_spawner\<lparr>user_name := ''a-b''\<rparr>"

text \<open>
  The keyword arguments that \<open>start\<close> builds for the default spawner, called with one
  extra keyword that no slice knows.
\<close>

definition default_kwargs :: "(string \<times> pyval) list" where
  "default_kwargs =
     (case build_create_kwargs mock_host default_spawner ''jupyter-alice''
             (image default_spawner) [] (Some [(''cap_add'', PList [PStr ''SYS_ADMIN''])]) of
        Inr kw \<Rightarrow> kw
      | Inl e \<Rightarrow> [])"



definition spawner_volumes :: spawner where
  "spawner_volumes =
     default_spawner\<lparr>volumes := [(''/a'', VStr ''/z''),
                                 (''/b'', VDict [(''bind'', ''/y''), (''mode'', ''ro'')])],
                     read_only_volumes := [(''/a'', VStr ''/zz'')]\<rparr>"

section \<open>Properties\<close>

subsection \<open>The service name is read once\<close>

lemma escaped_name_keeps:
  "snd (escaped_name h s) = s\<lparr>escaped_name_cache := Some (fst (escaped_name h s))\<rparr>"
  by (simp add: escaped_name_def Let_def split: option.splits)

lemma service_name_snd:
  "snd (service_name h s) = s\<lparr>escaped_name_cache := Some (fst (escaped_name h s))\<rparr>"
  by (simp add: service_name_def Let_def split_beta escaped_name_keeps[symmetric])

lemma service_name_again:
  "service_name h (snd (service_name h s)) = (fst (service_name h s), snd (service_name h s))"
  by (simp add: service_name_snd)
    (simp add: service_name_def escaped_name_def Let_def split: option.splits)

lemma service_name_inspect_irrelevant:
  "service_name (h\<lparr>inspect_service := f\<rparr>) s = service_name h s"
  by (simp add: service_name_def escaped_name_def Let_def split: option.splits)

lemma service_name_alice:
  assumes "str_format h = format_default" and "user_name s = ''alice''"
    and "escaped_name_cache s = None" and "service_prefix s = ''jupyter''"
    and "service_name_template s = ''{prefix}-{username}''"
  shows "fst (service_name h s) = Inr ''jupyter-alice''"
  using assms
  by (simp add: service_name_def escaped_name_def format_default_def
      service_safe_chars_def ascii_letters_def digits_def Let_def)

lemma service_name_service_id:
  "service_name h (s\<lparr>service_id := i\<rparr>)
     = (fst (service_name h s), (snd (service_name h s))\<lparr>service_id := i\<rparr>)"
  by (simp add: service_name_def escaped_name_def Let_def split: option.splits)

lemma service_name_calls:
  "service_name h (s\<lparr>calls := c\<rparr>)
     = (fst (service_name h s), (snd (service_name h s))\<lparr>calls := c\<rparr>)"
  by (simp add: service_name_def escaped_name_def Let_def split: option.splits)

subsection \<open>Identity\<close>











lemma escaped_name_dash: "fst (escaped_name mock_host spawner_dash) = ''a-b''"
  by (simp add: escaped_name_def spawner_dash_def default_spawner_def mock_host_def Let_def
      service_safe_chars_def ascii_letters_def digits_def service_escape_char_def)



subsection \<open>Discovery\<close>

text \<open>
  C7. When the inspect call fails with status 404 or 500, \<open>get_service\<close> returns no
  service and the stored \<open>service_id\<close> becomes empty; with any other status the same
  \<open>APIError\<close> reaches the caller and the stored id is as it was.
\<close>

theorem get_service_on_engine_failure:
  assumes "fst (service_name h s) = Inr n" and "inspect_service h n = Inl (APIError code)"
  shows "get_service h s =
           (if code = 404 \<or> code = 500
            then (Inr None,
                  (docker (Inspect_service n) (snd (service_name h s)))\<lparr>service_id := []\<rparr>)
            else (Inl (APIError code), docker (Inspect_service n) (snd (service_name h s))))"
proof -
  obtain s1 where sn: "service_name h s = (Inr n, s1)"
    using assms(1) by (cases "service_name h s") simp
  show ?thesis
    using assms(2) by (simp add: get_service_def sn Let_def)
qed

theorem get_service_on_engine_failure_witness:
  "fst (get_service mock_host spawner_abc) = Inr None
   \<and> service_id (snd (get_service mock_host spawner_abc)) = []
   \<and> fst (get_service host_inspect_503 spawner_abc) = Inl (APIError 503)
   \<and> service_id (snd (get_service host_inspect_503 spawner_abc)) = ''abc''"
proof -
  have a: "fst (service_name mock_host spawner_abc) = Inr ''jupyter-alice''"
    by (rule service_name_alice) (simp_all add: mock_host_def default_spawner_def spawner_abc_def)
  have b: "inspect_service mock_host ''jupyter-alice'' = Inl (APIError 404)"
    by (simp add: mock_host_def)
  have a': "fst (service_name host_inspect_503 spawner_abc) = Inr ''jupyter-alice''"
    using a by (simp add: host_inspect_503_def service_name_inspect_irrelevant)
  have b': "inspect_service host_inspect_503 ''jupyter-alice'' = Inl (APIError 503)"
    by (simp add: host_inspect_503_def)
  show ?thesis
    using get_service_on_engine_failure [OF a b] get_service_on_engine_failure [OF a' b']
    by (simp add: docker_def service_name_snd default_spawner_def spawner_abc_def)
qed

text \<open>
  C6. On the answer of the task query for the derived service name: no task gives no
  task, exactly one task gives that task, and more than one gives a \<open>RuntimeError\<close>
  (not an \<open>APIError\<close>) and no task.
\<close>

theorem get_task_by_match_count:
  assumes "fst (service_name h s) = Inr n" and "tasks h n = Inr ts"
  shows "fst (get_task h s) =
           (if length ts = 0 then Inr None
            else if length ts = 1 then Inr (Some (hd ts))
            else Inl (RuntimeError
                   (''Found more than one running notebook task for service ''
                      @ CHR 0x27 # n @ [CHR 0x27])))"
proof -
  obtain s1 where sn: "service_name h s = (Inr n, s1)"
    using assms(1) by (cases "service_name h s") simp
  show ?thesis
    using assms(2)
    by (cases ts) (simp_all add: get_task_def sn Let_def gen_coroutine_def split_beta)
qed

theorem get_task_by_match_count_witness:
  "fst (get_task host_two_tasks default_spawner)
     = Inl (RuntimeError
         (''Found more than one running notebook task for service ''
            @ CHR 0x27 # ''jupyter-alice'' @ [CHR 0x27]))
   \<and> fst (get_task host_one_task default_spawner) = Inr (Some task1)
   \<and> fst (get_task mock_host default_spawner) = Inr None"
proof -
  have a: "fst (service_name (mock_host\<lparr>tasks := g\<rparr>) default_spawner) = Inr ''jupyter-alice''"
    for g
    by (rule service_name_alice) (simp_all add: mock_host_def default_spawner_def)
  have a0: "fst (service_name mock_host default_spawner) = Inr ''jupyter-alice''"
    by (rule service_name_alice) (simp_all add: mock_host_def default_spawner_def)
  have b0: "tasks mock_host ''jupyter-alice'' = Inr []"
    by (simp add: mock_host_def)
  show ?thesis
    using get_task_by_match_count [OF a, of "\<lambda>n. Inr [task1, task2]" "[task1, task2]"]
      get_task_by_match_count [OF a, of "\<lambda>n. Inr [task1]" "[task1]"]
      get_task_by_match_count [OF a0 b0]
    by (simp add: host_two_tasks_def host_one_task_def)
qed

text \<open>
  C8. The call \<open>self.get_service()\<close> in \<open>get_task\<close> is not awaited: its value is a
  Future and never \<open>None\<close>, so the early return is not taken. Whenever the service name
  can be derived, \<open>get_task\<close> issues the inspect call and then the task query, and what
  it returns does not depend on the answer to the inspect call.
\<close>

theorem get_task_always_lists_tasks:
  assumes "fst (service_name h s) = Inr n"
  shows "fst (gen_coroutine (get_service h) s') \<noteq> None
       \<and> calls (snd (get_task h s)) = calls s @ [Inspect_service n, Tasks n]
       \<and> fst (get_task (h\<lparr>inspect_service := f\<rparr>) s) = fst (get_task h s)"
proof -
  obtain s1 where sn: "service_name h s = (Inr n, s1)"
    using assms by (cases "service_name h s") simp
  have s1: "s1 = snd (service_name h s)"
    by (simp add: sn)
  have again: "service_name h s1 = (Inr n, s1)"
    using service_name_again [of h s] by (simp add: sn)
  have c1: "calls s1 = calls s"
    by (simp add: s1 service_name_snd)
  have gs: "calls (snd (get_service h s1)) = calls s @ [Inspect_service n]"
    by (simp add: get_service_def again Let_def docker_def c1 split: sum.splits error.splits)
  have tk: "calls (snd (get_task h s)) = calls s @ [Inspect_service n, Tasks n]"
    using gs
    by (simp add: get_task_def sn gen_coroutine_def Let_def docker_def
        split: sum.splits error.splits)
  have indep: "fst (get_task (h\<lparr>inspect_service := f\<rparr>) s) = fst (get_task h s)"
    by (simp add: get_task_def service_name_inspect_irrelevant sn gen_coroutine_def Let_def
        split: sum.splits error.splits)
  show ?thesis
    using tk indep by (simp add: gen_coroutine_def)
qed

theorem get_task_always_lists_tasks_witness:
  "calls (snd (get_task mock_host default_spawner))
     = [Inspect_service ''jupyter-alice'', Tasks ''jupyter-alice'']
   \<and> fst (get_task host_existing default_spawner) = fst (get_task mock_host default_spawner)"
proof -
  have a0: "fst (service_name mock_host default_spawner) = Inr ''jupyter-alice''"
    by (rule service_name_alice) (simp_all add: mock_host_def default_spawner_def)
  show ?thesis
    using get_task_always_lists_tasks [OF a0, where f = "\<lambda>n. Inr service_abc"]
    by (simp add: default_spawner_def host_existing_def)
qed

subsection \<open>Volumes and mounts\<close>

lemma first_occurrences_snoc:
  "first_occurrences (xs @ [k])
     = (if k \<in> set xs then first_occurrences xs else first_occurrences xs @ [k])"
  by (simp add: first_occurrences_def)

lemma set_first_occurrences: "set (first_occurrences xs) = set xs"
  by (simp add: first_occurrences_def)

lemma volumes_to_binds_keys:
  assumes "volumes_to_binds fmt vs binds mode = Inr b"
    and "map fst binds = first_occurrences ks"
  shows "map fst b = first_occurrences (ks @ map (\<lambda>(k, v). fmt k) vs)"
  using assms
proof (induction vs arbitrary: binds ks)
  case Nil
  then show ?case by simp
next
  case (Cons kv vs)
  obtain k v where kv: "kv = (k, v)"
    by (cases kv)
  have step: "map fst (AList.update (fmt k) e binds) = first_occurrences (ks @ [fmt k])" for e
    using Cons.prems(2) set_first_occurrences [of ks]
    by (simp add: update_keys first_occurrences_snoc flip: set_map)
  show ?case
  proof (cases v)
    case (VStr p)
    with Cons.prems(1) kv
    have "volumes_to_binds fmt vs
            (AList.update (fmt k) \<lparr>vb_bind = fmt p, vb_mode = mode\<rparr> binds) mode = Inr b"
      by simp
    from Cons.IH [OF this step] kv show ?thesis by simp
  next
    case (VDict dv)
    with Cons.prems(1) kv obtain bp m where
      "volumes_to_binds fmt vs
         (AList.update (fmt k) \<lparr>vb_bind = fmt bp, vb_mode = m\<rparr> binds) mode = Inr b"
      by (auto simp: Let_def split: option.splits)
    from Cons.IH [OF this step] kv show ?thesis by simp
  qed
qed

lemma volume_binds_keys:
  assumes "volume_binds s = Inr b"
  shows "map fst b = first_occurrences
           (map (\<lambda>(k, v). format_volume_name s k) (volumes s @ read_only_volumes s))"
proof -
  from assms obtain b0 where
    b0: "volumes_to_binds (format_volume_name s) (volumes s) [] ''rw'' = Inr b0"
    and b: "volumes_to_binds (format_volume_name s) (read_only_volumes s) b0 ''ro'' = Inr b"
    by (auto simp: volume_binds_def split: sum.splits)
  have "map fst b0 = first_occurrences ([] @ map (\<lambda>(k, v). format_volume_name s k) (volumes s))"
    by (rule volumes_to_binds_keys [OF b0]) (simp add: first_occurrences_def)
  then have "map fst b0 = first_occurrences (map (\<lambda>(k, v). format_volume_name s k) (volumes s))"
    by simp
  from volumes_to_binds_keys [OF b this] show ?thesis
    by simp
qed

lemma mounts_of_binds:
  "mounts s = (case volume_binds s of
                 Inl e \<Rightarrow> Inl e
               | Inr binds \<Rightarrow>
                   Inr (map (\<lambda>(host_loc, vol).
                          \<lparr>target = vb_bind vol, source = host_loc, mount_type = ''bind'',
                           read_only = (vb_mode vol = ''ro''),
                           mount_driver = mount_driver_config s\<rparr>) binds))"
  by (simp add: mounts_def Let_def split: sum.splits)

text \<open>
  C3, as the code has it. The mount list follows the insertion order of the binds dict:
  the formatted host paths of \<open>volumes\<close> and then of \<open>read_only_volumes\<close>, each at
  its first occurrence. It is \<open>volume_mount_points\<close> that is sorted: the sorted list of
  the mounts' targets. Two spawners with the same volume maps, naming callable and driver
  settings build the same mount list.
\<close>

theorem mounts_in_insertion_order:
  assumes "mounts s = Inr ms"
  shows "map source ms = first_occurrences
           (map (\<lambda>(k, v). format_volume_name s k) (volumes s @ read_only_volumes s))
       \<and> volume_mount_points s = Inr (sort (map target ms))
       \<and> (volumes t = volumes s \<and> read_only_volumes t = read_only_volumes s
            \<and> format_volume_name t = format_volume_name s
            \<and> volume_driver t = volume_driver s
            \<and> volume_driver_options t = volume_driver_options s
          \<longrightarrow> mounts t = Inr ms)"
proof -
  from assms obtain b where b: "volume_binds s = Inr b"
    and ms: "ms = map (\<lambda>(host_loc, vol).
                   \<lparr>target = vb_bind vol, source = host_loc, mount_type = ''bind'',
                    read_only = (vb_mode vol = ''ro''),
                    mount_driver = mount_driver_config s\<rparr>) b"
    by (auto simp: mounts_of_binds split: sum.splits)
  have src: "map source ms = map fst b"
    by (simp add: ms split_beta)
  have tgt: "map target ms = map (\<lambda>(host_loc, value). vb_bind value) b"
    by (simp add: ms split_beta)
  have same: "mounts t = Inr ms"
    if "volumes t = volumes s" "read_only_volumes t = read_only_volumes s"
      "format_volume_name t = format_volume_name s" "volume_driver t = volume_driver s"
      "volume_driver_options t = volume_driver_options s"
  proof -
    have "volume_binds t = volume_binds s" "mount_driver_config t = mount_driver_config s"
      using that by (simp_all add: volume_binds_def mount_driver_config_def split: sum.splits)
    then show ?thesis
      by (simp add: mounts_of_binds b ms)
  qed
  show ?thesis
    using volume_binds_keys [OF b] same
    by (simp add: src volume_mount_points_def b tgt)
qed

lemma mounts_spawner_volumes:
  "mounts spawner_volumes =
     Inr [\<lparr>target = ''/zz'', source = ''/a'', mount_type = ''bind'', read_only = True,
            mount_driver = \<lparr>dc_name = [], dc_options = None\<rparr>\<rparr>,
          \<lparr>target = ''/y'', source = ''/b'', mount_type = ''bind'', read_only = True,
            mount_driver = \<lparr>dc_name = [], dc_options = None\<rparr>\<rparr>]"
  by (simp add: mounts_def volume_binds_def spawner_volumes_def default_spawner_def
      mount_driver_config_def Let_def)

theorem mounts_in_insertion_order_witness:
  "map source (projr (mounts spawner_volumes)) = [''/a'', ''/b'']
   \<and> volume_mount_points spawner_volumes = Inr [''/y'', ''/zz'']
   \<and> mounts (spawner_volumes\<lparr>service_id := ''abc''\<rparr>) = mounts spawner_volumes"
proof -
  show ?thesis
    using mounts_in_insertion_order [OF mounts_spawner_volumes,
        of "spawner_volumes\<lparr>service_id := ''abc''\<rparr>"]
    by (simp add: mounts_spawner_volumes)
qed

text \<open>
  C3 as stated fails: with \<open>/a\<close> bound to \<open>/zz\<close> and \<open>/b\<close> bound to \<open>/y\<close> the
  mount list has the targets \<open>/zz\<close>, \<open>/y\<close> in this order, which is not sorted.
\<close>

theorem mounts_not_sorted_by_bind_path:
  "map target (projr (mounts spawner_volumes)) = [''/zz'', ''/y'']
   \<and> \<not> sorted (map target (projr (mounts spawner_volumes)))"
  by (simp add: mounts_spawner_volumes)

subsection \<open>Building the service specification\<close>

lemma keys_dict_filter: "fst ` set (dict_filter ks d) = fst ` set d \<inter> set ks"
  by (auto simp: dict_filter_def image_iff)

lemma spec_keys_disjoint:
  "set container_spec_keys \<inter> set resource_spec_keys = {}"
  "set container_spec_keys \<inter> set task_spec_keys = {}"
  "set container_spec_keys \<inter> set endpoint_spec_keys = {}"
  "set resource_spec_keys \<inter> set task_spec_keys = {}"
  "set resource_spec_keys \<inter> set endpoint_spec_keys = {}"
  "set task_spec_keys \<inter> set endpoint_spec_keys = {}"
  by (simp_all add: container_spec_keys_def resource_spec_keys_def task_spec_keys_def
      endpoint_spec_keys_def)

lemma name_not_spec_key:
  "''name'' \<notin> set container_spec_keys" "''name'' \<notin> set resource_spec_keys"
  "''name'' \<notin> set task_spec_keys" "''name'' \<notin> set endpoint_spec_keys"
  by (simp_all add: container_spec_keys_def resource_spec_keys_def task_spec_keys_def
      endpoint_spec_keys_def)

text \<open>
  C5, as the code has it. Every key of the create options other than \<open>name\<close> is in
  exactly one of the container, resource, task and endpoint slices and the unused keys;
  \<open>name\<close> is in none of the five. The partition is total: it has no error case.
\<close>

theorem partition_covers_all_but_name:
  assumes "k \<in> fst ` set d"
  shows "length (filter (\<lambda>b. b)
           [k \<in> fst ` set (dict_filter container_spec_keys d),
            k \<in> fst ` set (dict_filter resource_spec_keys d),
            k \<in> fst ` set (dict_filter task_spec_keys d),
            k \<in> fst ` set (dict_filter endpoint_spec_keys d),
            k \<in> remaining_keys d])
         = (if k = ''name'' then 0 else 1)"
proof -
  have r: "k \<in> remaining_keys d \<longleftrightarrow>
             k \<notin> set container_spec_keys \<and> k \<notin> set resource_spec_keys
             \<and> k \<notin> set task_spec_keys \<and> k \<notin> set endpoint_spec_keys \<and> k \<noteq> ''name''"
    using assms by (auto simp: remaining_keys_def)
  show ?thesis
    using assms spec_keys_disjoint name_not_spec_key
    by (auto simp: keys_dict_filter r)
qed

lemma default_kwargs_keys:
  "map fst default_kwargs =
     [''image'', ''env'', ''mounts'', ''name'', ''args'', ''mem_limit'', ''mem_reservation'',
      ''cpu_limit'', ''cpu_reservation'', ''networks'', ''cap_add'']"
  by (simp add: default_kwargs_def build_create_kwargs_def Let_def dict_update_def
      default_spawner_def mock_host_def nano_cpus_def)

theorem partition_covers_all_but_name_witness:
  "length (filter (\<lambda>b. b)
           [''image'' \<in> fst ` set (dict_filter container_spec_keys default_kwargs),
            ''image'' \<in> fst ` set (dict_filter resource_spec_keys default_kwargs),
            ''image'' \<in> fst ` set (dict_filter task_spec_keys default_kwargs),
            ''image'' \<in> fst ` set (dict_filter endpoint_spec_keys default_kwargs),
            ''image'' \<in> remaining_keys default_kwargs]) = 1
   \<and> length (filter (\<lambda>b. b)
           [''cap_add'' \<in> fst ` set (dict_filter container_spec_keys default_kwargs),
            ''cap_add'' \<in> fst ` set (dict_filter resource_spec_keys default_kwargs),
            ''cap_add'' \<in> fst ` set (dict_filter task_spec_keys default_kwargs),
            ''cap_add'' \<in> fst ` set (dict_filter endpoint_spec_keys default_kwargs),
            ''cap_add'' \<in> remaining_keys default_kwargs]) = 1"
proof -
  have a: "''image'' \<in> fst ` set default_kwargs" "''cap_add'' \<in> fst ` set default_kwargs"
    using default_kwargs_keys by (simp_all flip: set_map)
  show ?thesis
    using partition_covers_all_but_name [OF a(1)] partition_covers_all_but_name [OF a(2)]
    by simp
qed

text \<open>
  C5 as stated fails: \<open>name\<close> is a key of the create options, and it is in none of the
  four slices and not among the unused keys.
\<close>

theorem name_key_in_no_slice:
  "''name'' \<in> fst ` set default_kwargs
   \<and> ''name'' \<notin> fst ` set (dict_filter container_spec_keys default_kwargs)
   \<and> ''name'' \<notin> fst ` set (dict_filter resource_spec_keys default_kwargs)
   \<and> ''name'' \<notin> fst ` set (dict_filter task_spec_keys default_kwargs)
   \<and> ''name'' \<notin> fst ` set (dict_filter endpoint_spec_keys default_kwargs)
   \<and> ''name'' \<notin> remaining_keys default_kwargs"
proof -
  have "''name'' \<in> fst ` set default_kwargs"
    using default_kwargs_keys by (simp flip: set_map)
  then show ?thesis
    by (simp add: keys_dict_filter name_not_spec_key remaining_keys_def)
qed










subsection \<open>Start\<close>

lemma startswith_append: "startswith line p \<Longrightarrow> \<exists>v. line = p @ v"
  by (metis append_take_drop_id startswith_def)

lemma token_line_shape:
  assumes "is_token_line line"
  shows "\<exists>key v. line = key @ ''='' @ v
           \<and> (key = ''JPY_API_TOKEN'' \<or> key = ''JUPYTERHUB_API_TOKEN'')
           \<and> split_once (CHR ''='') line = [key, v]"
proof -
  from assms consider "startswith line ''JPY_API_TOKEN=''"
    | "startswith line ''JUPYTERHUB_API_TOKEN=''"
    by (auto simp: is_token_line_def)
  then show ?thesis
  proof cases
    case 1
    then obtain v where "line = ''JPY_API_TOKEN'' @ ''='' @ v"
      using startswith_append by fastforce
    moreover from this have "split_once (CHR ''='') line = [''JPY_API_TOKEN'', v]"
      by (simp add: split_once_def)
    ultimately show ?thesis by blast
  next
    case 2
    then obtain v where "line = ''JUPYTERHUB_API_TOKEN'' @ ''='' @ v"
      using startswith_append by fastforce
    moreover from this have "split_once (CHR ''='') line = [''JUPYTERHUB_API_TOKEN'', v]"
      by (simp add: split_once_def)
    ultimately show ?thesis by blast
  qed
qed

lemma reuse_api_token_first_match:
  assumes "find is_token_line env = Some line"
  shows "reuse_api_token env s = (Inr (), s\<lparr>api_token := split_once (CHR ''='') line ! 1\<rparr>)"
  using assms
proof (induction env)
  case Nil
  then show ?case by simp
next
  case (Cons l ls)
  show ?case
  proof (cases "is_token_line l")
    case True
    with Cons.prems have "l = line" by simp
    moreover from True obtain key v where "split_once (CHR ''='') l = [key, v]"
      using token_line_shape by blast
    ultimately show ?thesis using True by (simp add: Let_def)
  next
    case False
    with Cons show ?thesis by simp
  qed
qed

lemma reuse_api_token_no_match:
  assumes "find is_token_line env = None"
  shows "reuse_api_token env s = (Inr (), s)"
  using assms by (induction env) (auto split: if_splits)

lemma start_reuse_path:
  assumes "fst (service_name h s) = Inr n" and "inspect_service h n = Inr svc"
    and "\<not> remove_services s"
  shows "\<exists>s2. calls s2 = calls s @ [Inspect_service n] \<and> api_token s2 = api_token s
           \<and> port s2 = port s
           \<and> start h image_arg extra s =
               (case svc_Config svc of
                  None \<Rightarrow> (Inl (KeyError ''Config''), s2)
                | Some None \<Rightarrow> (Inl (KeyError ''Env''), s2)
                | Some (Some env) \<Rightarrow>
                    (case find is_token_line env of
                       None \<Rightarrow> (Inr (n, port s), s2)
                     | Some line \<Rightarrow>
                         (Inr (n, port s),
                          s2\<lparr>api_token := split_once (CHR ''='') line ! 1\<rparr>)))"
proof -
  obtain s1 where sn: "service_name h s = (Inr n, s1)"
    using assms(1) by (cases "service_name h s") simp
  have s1: "s1 = s\<lparr>escaped_name_cache := Some (fst (escaped_name h s))\<rparr>"
    using service_name_snd [of h s] by (simp add: sn)
  have again: "service_name h s1 = (Inr n, s1)"
    using service_name_again [of h s] by (simp add: sn)
  define s2 where "s2 = (docker (Inspect_service n) s1)\<lparr>service_id := svc_ID svc\<rparr>"
  have gs: "get_service h s = (Inr (Some svc), s2)"
    by (simp add: get_service_def sn assms(2) Let_def s2_def)
  have sn2: "service_name h s2 = (Inr n, s2)"
    by (simp add: s2_def docker_def service_name_service_id service_name_calls again)
  have f2: "\<not> remove_services s2" "calls s2 = calls s @ [Inspect_service n]"
    "port s2 = port s" "api_token s2 = api_token s"
    using assms(3) by (simp_all add: s2_def docker_def s1)
  have "start h image_arg extra s =
          (case svc_Config svc of
             None \<Rightarrow> (Inl (KeyError ''Config''), s2)
           | Some None \<Rightarrow> (Inl (KeyError ''Env''), s2)
           | Some (Some env) \<Rightarrow>
               (case find is_token_line env of
                  None \<Rightarrow> (Inr (n, port s), s2)
                | Some line \<Rightarrow>
                    (Inr (n, port s), s2\<lparr>api_token := split_once (CHR ''='') line ! 1\<rparr>)))"
    by (simp add: start_def gs sn2 f2 reuse_api_token_no_match reuse_api_token_first_match
        split: option.splits)
  with f2 show ?thesis
    by blast
qed

text \<open>
  C9, as the code has it. When the inspect call finds a service and \<open>remove_services\<close>
  is off, \<open>start\<close> issues the inspect call and no other. If the response has no
  \<open>['Config']\<close> or no \<open>['Config']['Env']\<close>, \<open>start\<close> raises \<open>KeyError\<close> and the API
  token is as it was. Otherwise \<open>start\<close> returns the service name and the port; the API
  token becomes what follows the first \<open>=\<close> of the first line of the environment that
  starts with \<open>JPY_API_TOKEN=\<close> or \<open>JUPYTERHUB_API_TOKEN=\<close>, and is as it was when
  there is no such line.
\<close>

theorem start_reuses_existing_service:
  assumes "fst (service_name h s) = Inr n" and "inspect_service h n = Inr svc"
    and "\<not> remove_services s"
  shows "calls (snd (start h image_arg extra s)) = calls s @ [Inspect_service n]
       \<and> (svc_Config svc = None \<longrightarrow>
            fst (start h image_arg extra s) = Inl (KeyError ''Config'')
            \<and> api_token (snd (start h image_arg extra s)) = api_token s)
       \<and> (svc_Config svc = Some None \<longrightarrow>
            fst (start h image_arg extra s) = Inl (KeyError ''Env'')
            \<and> api_token (snd (start h image_arg extra s)) = api_token s)
       \<and> (\<forall>env. svc_Config svc = Some (Some env) \<longrightarrow>
            fst (start h image_arg extra s) = Inr (n, port s)
            \<and> (find is_token_line env = None \<longrightarrow>
                 api_token (snd (start h image_arg extra s)) = api_token s)
            \<and> (\<forall>line. find is_token_line env = Some line \<longrightarrow>
                 (\<exists>key v. line = key @ ''='' @ v
                    \<and> (key = ''JPY_API_TOKEN'' \<or> key = ''JUPYTERHUB_API_TOKEN'')
                    \<and> api_token (snd (start h image_arg extra s)) = v)))"
proof -
  obtain s2 where s2: "calls s2 = calls s @ [Inspect_service n]" "api_token s2 = api_token s"
    and st: "start h image_arg extra s =
               (case svc_Config svc of
                  None \<Rightarrow> (Inl (KeyError ''Config''), s2)
                | Some None \<Rightarrow> (Inl (KeyError ''Env''), s2)
                | Some (Some env) \<Rightarrow>
                    (case find is_token_line env of
                       None \<Rightarrow> (Inr (n, port s), s2)
                     | Some line \<Rightarrow>
                         (Inr (n, port s),
                          s2\<lparr>api_token := split_once (CHR ''='') line ! 1\<rparr>)))"
    using start_reuse_path [OF assms, of image_arg extra] by blast
  have c: "calls (snd (start h image_arg extra s)) = calls s @ [Inspect_service n]"
    by (simp add: st s2 split: option.splits)
  have k1: "fst (start h image_arg extra s) = Inl (KeyError ''Config'')
            \<and> api_token (snd (start h image_arg extra s)) = api_token s"
    if "svc_Config svc = None"
    by (simp add: st that s2)
  have k2: "fst (start h image_arg extra s) = Inl (KeyError ''Env'')
            \<and> api_token (snd (start h image_arg extra s)) = api_token s"
    if "svc_Config svc = Some None"
    by (simp add: st that s2)
  have r: "fst (start h image_arg extra s) = Inr (n, port s)"
    if "svc_Config svc = Some (Some env)" for env
    by (simp add: st that split: option.splits)
  have t0: "api_token (snd (start h image_arg extra s)) = api_token s"
    if "svc_Config svc = Some (Some env)" "find is_token_line env = None" for env
    by (simp add: st that s2)
  have t1: "\<exists>key v. line = key @ ''='' @ v
              \<and> (key = ''JPY_API_TOKEN'' \<or> key = ''JUPYTERHUB_API_TOKEN'')
              \<and> api_token (snd (start h image_arg extra s)) = v"
    if "svc_Config svc = Some (Some env)" "find is_token_line env = Some line" for env line
  proof -
    from that(2) have "is_token_line line"
      by (metis find_Some_iff)
    then obtain key v where kv: "line = key @ ''='' @ v"
      "key = ''JPY_API_TOKEN'' \<or> key = ''JUPYTERHUB_API_TOKEN''"
      "split_once (CHR ''='') line = [key, v]"
      using token_line_shape by blast
    have "api_token (snd (start h image_arg extra s)) = v"
      by (simp add: st that kv(3))
    with kv(1,2) show ?thesis by blast
  qed
  show ?thesis
    using c k1 k2 r t0 t1 by blast
qed

theorem start_reuses_existing_service_witness:
  "fst (start host_existing None None default_spawner) = Inr (''jupyter-alice'', 8888)
   \<and> api_token (snd (start host_existing None None default_spawner)) = ''abc123''
   \<and> calls (snd (start host_existing None None default_spawner))
       = [Inspect_service ''jupyter-alice'']"
proof -
  have a: "fst (service_name host_existing default_spawner) = Inr ''jupyter-alice''"
    by (rule service_name_alice)
      (simp_all add: host_existing_def mock_host_def default_spawner_def)
  have b: "inspect_service host_existing ''jupyter-alice'' = Inr service_abc"
    by (simp add: host_existing_def)
  have c: "\<not> remove_services default_spawner"
    by (simp add: default_spawner_def)
  have d: "svc_Config service_abc
             = Some (Some [''PATH=/usr/bin'', ''JUPYTERHUB_API_TOKEN=abc123'',
                           ''JPY_API_TOKEN=old=1''])"
    by (simp add: service_abc_def)
  have e: "find is_token_line [''PATH=/usr/bin'', ''JUPYTERHUB_API_TOKEN=abc123'',
             ''JPY_API_TOKEN=old=1''] = Some ''JUPYTERHUB_API_TOKEN=abc123''"
    by (simp add: is_token_line_def startswith_def)
  have p: "port default_spawner = 8888" "calls default_spawner = []"
    by (simp_all add: default_spawner_def)
  from start_reuses_existing_service [OF a b c, of None None] d e
  have "fst (start host_existing None None default_spawner) = Inr (''jupyter-alice'', port default_spawner)"
    "calls (snd (start host_existing None None default_spawner))
       = calls default_spawner @ [Inspect_service ''jupyter-alice'']"
    "\<exists>key v. ''JUPYTERHUB_API_TOKEN=abc123'' = key @ ''='' @ v
       \<and> (key = ''JPY_API_TOKEN'' \<or> key = ''JUPYTERHUB_API_TOKEN'')
       \<and> api_token (snd (start host_existing None None default_spawner)) = v"
    by blast+
  then show ?thesis
    by (auto simp: p)
qed

text \<open>
  C9 as stated fails: for an existing service whose inspect response has no \<open>Config\<close>,
  \<open>start\<close> raises \<open>KeyError\<close> and the token is not set; for one whose environment has
  no token line, \<open>start\<close> returns and the token is not set either.
\<close>

theorem start_existing_service_token_not_set:
  "fst (start host_no_config None None default_spawner) = Inl (KeyError ''Config'')
   \<and> api_token (snd (start host_no_config None None default_spawner)) = ''tok0''
   \<and> fst (start host_no_token None None default_spawner) = Inr (''jupyter-alice'', 8888)
   \<and> api_token (snd (start host_no_token None None default_spawner)) = ''tok0''"
proof -
  have a: "fst (service_name host_no_config default_spawner) = Inr ''jupyter-alice''"
    "fst (service_name host_no_token default_spawner) = Inr ''jupyter-alice''"
    by (rule service_name_alice;
        simp add: host_no_config_def host_no_token_def mock_host_def default_spawner_def)+
  have b: "inspect_service host_no_config ''jupyter-alice'' = Inr service_no_config"
    "inspect_service host_no_token ''jupyter-alice'' = Inr service_no_token"
    by (simp_all add: host_no_config_def host_no_token_def)
  have c: "\<not> remove_services default_spawner"
    by (simp add: default_spawner_def)
  have p: "port default_spawner = 8888" "api_token default_spawner = ''tok0''"
    by (simp_all add: default_spawner_def)
  have f: "\<not> is_token_line ''PATH=/usr/bin''"
    by (simp add: is_token_line_def startswith_def)
  show ?thesis
    using start_reuse_path [OF a(1) b(1) c, of None None]
      start_reuse_path [OF a(2) b(2) c, of None None]
    by (auto simp: service_no_config_def service_no_token_def p f)
qed

subsection \<open>Stop\<close>

text \<open>
  C1, as the code has it. \<open>stop\<close> reaches \<open>clear_state\<close> when the remove call
  returns; when the remove call raises, with 404 or anything else, the exception reaches the
  caller and \<open>clear_state\<close> is not applied.
\<close>

theorem stop_clears_after_remove_returns:
  assumes "fst (service_name h s) = Inr n"
  shows "stop h s =
           (case remove_service h (service_id s) of
              Inr u \<Rightarrow> (Inr (), base_clear_state h
                          (docker (Remove_service (service_id s)) (snd (service_name h s))))
            | Inl e \<Rightarrow> (Inl e, docker (Remove_service (service_id s)) (snd (service_name h s))))"
proof -
  obtain s1 where sn: "service_name h s = (Inr n, s1)"
    using assms by (cases "service_name h s") simp
  have "service_id s1 = service_id s"
    using service_name_snd [of h s] by (simp add: sn)
  then show ?thesis
    by (simp add: stop_def sn Let_def split: sum.splits)
qed

theorem stop_clears_after_remove_returns_witness:
  "fst (stop mock_host spawner_abc) = Inr ()
   \<and> api_token (snd (stop mock_host spawner_abc)) = []
   \<and> calls (snd (stop mock_host spawner_abc)) = [Remove_service ''abc'']"
proof -
  have a: "fst (service_name mock_host spawner_abc) = Inr ''jupyter-alice''"
    by (rule service_name_alice) (simp_all add: mock_host_def default_spawner_def spawner_abc_def)
  show ?thesis
    using stop_clears_after_remove_returns [OF a]
    by (simp add: service_name_snd docker_def mock_host_def default_spawner_def spawner_abc_def)
qed

text \<open>
  C1 as stated fails: with the service id \<open>abc\<close> stored and an engine that answers the
  remove call with 404, \<open>stop\<close> raises that error and the id and the token are still
  there.
\<close>

theorem stop_keeps_record_when_remove_fails:
  "fst (stop host_remove_404 spawner_abc) = Inl (APIError 404)
   \<and> service_id (snd (stop host_remove_404 spawner_abc)) = ''abc''
   \<and> api_token (snd (stop host_remove_404 spawner_abc)) = ''tok0''"
  by (simp add: stop_def service_name_def escaped_name_def host_remove_404_def mock_host_def
      spawner_abc_def default_spawner_def format_default_def service_safe_chars_def
      ascii_letters_def digits_def Let_def docker_def)

subsection \<open>Persisted state\<close>

text \<open>
  C10. When the inherited state has no \<open>service_id\<close> key, \<open>get_state\<close> has the key
  exactly when \<open>service_id\<close> is not empty, and \<open>load_state\<close> on that state, into any
  spawner, succeeds and stores the same \<open>service_id\<close>.
\<close>

theorem state_round_trip:
  assumes "map_of (base_get_state h s) ''service_id'' = None"
  shows "(map_of (get_state h s) ''service_id'' \<noteq> None) = (service_id s \<noteq> [])
       \<and> fst (load_state h (get_state h s) t) = Inr ()
       \<and> service_id (snd (load_state h (get_state h s) t)) = service_id s"
  using assms by (simp add: get_state_def load_state_def Let_def update_conv')

theorem state_round_trip_witness:
  "map_of (get_state mock_host spawner_abc) ''service_id'' = Some (PStr ''abc'')
   \<and> map_of (get_state mock_host default_spawner) ''service_id'' = None
   \<and> service_id (snd (load_state mock_host (get_state mock_host spawner_abc) default_spawner))
       = ''abc''
   \<and> service_id (snd (load_state mock_host (get_state mock_host default_spawner) spawner_abc))
       = []"
proof -
  have a: "map_of (base_get_state mock_host s) ''service_id'' = None" for s
    by (simp add: mock_host_def)
  show ?thesis
    using state_round_trip [OF a, of spawner_abc default_spawner]
      state_round_trip [OF a, of default_spawner spawner_abc]
    by (simp add: get_state_def mock_host_def default_spawner_def spawner_abc_def)
qed

end
